theory Spec2Isabelle
  imports Complex_Main
begin

section \<open>Layers of the pointer-generator network (model/pgn/layers.py)\<close>

text \<open>
  The layers are embedded over the real numbers: a rank-1 tensor is a list of reals, a
  rank-2 tensor a list of rows, a rank-3 tensor a list of matrices (batch first).
  The arithmetic of the dense layers, of the scores and of the softmax is exact; the
  rounding of the 32-bit floats of the tensor runtime is part of the embedding only in
  \<open>tf.nn.sigmoid\<close>, whose result is a binary32 number.
  Sizes (unit counts, batch sizes, vocabulary sizes) are natural numbers.

  The weights of a dense layer, which the runtime creates at the first call of the
  layer, are explicit fields of the layer: the constructors take them as arguments.
\<close>

type_synonym vec = "real list"
type_synonym mat = "real list list"
type_synonym tensor3 = "real list list list"

subsection \<open>Exceptions\<close>

datatype error =
    Exception string
  | UnboundLocalError string
  | ValueError

subsection \<open>\<open>str.lower\<close>\<close>

text \<open>
  A character is a code point below 256. \<open>str.lower\<close> maps the capital letters of
  ASCII and of Latin-1 (\<open>0xC0\<close> to \<open>0xDE\<close>, the multiplication sign \<open>0xD7\<close> apart) to
  the letter 32 places further, and leaves every other character alone.
\<close>

definition lower_char :: "char \<Rightarrow> char" where
  "lower_char c =
     (let n = (of_char c :: nat)
      in if (65 \<le> n \<and> n \<le> 90) \<or> (192 \<le> n \<and> n \<le> 222 \<and> n \<noteq> 215)
         then char_of (n + 32) else c)"

definition lower :: "string \<Rightarrow> string" where
  "lower s = map lower_char s"

subsection \<open>Layers of the library, as the constructors configure them\<close>

record embedding_layer =
  input_dim :: nat
  output_dim :: nat
  weights :: "mat list option"
  trainable :: bool

definition Embedding :: "nat \<Rightarrow> nat \<Rightarrow> mat list option \<Rightarrow> bool \<Rightarrow> embedding_layer" where
  "Embedding n d w t = \<lparr>input_dim = n, output_dim = d, weights = w, trainable = t\<rparr>"

text \<open>
  Both recurrent layers are built with \<open>return_sequences=True, return_state=True\<close>;
  the only argument that varies is the number of units.
\<close>

datatype rnn_layer = GRU nat | LSTM nat | Bidirectional rnn_layer

record dense =
  units :: nat
  activation :: "string option"
  kernel :: mat
  bias :: vec

text \<open>\<open>Dense n act (k, b)\<close>: a dense layer of \<open>n\<close> units whose weights hold \<open>k\<close> and \<open>b\<close>.\<close>

definition Dense :: "nat \<Rightarrow> string option \<Rightarrow> mat \<times> vec \<Rightarrow> dense" where
  "Dense n act w = \<lparr>units = n, activation = act, kernel = fst w, bias = snd w\<rparr>"

subsection \<open>Tensor operations\<close>

text \<open>
  The operations below are those of the tensor runtime on operands whose shapes fit.
  Where the runtime rejects the operands (shapes that do not broadcast, a squeezed axis
  longer than 1, a kernel that does not fit the input), the functions still return a
  value; the theorems state the shapes they need.
\<close>

definition tf_zeros :: "nat \<times> nat \<Rightarrow> mat" where
  "tf_zeros shp = replicate (fst shp) (replicate (snd shp) 0)"

text \<open>
  Broadcasting along one axis: operands of equal length are combined position by
  position, an operand of length 1 is repeated along the other.
\<close>

definition broadcast :: "('a \<Rightarrow> 'b \<Rightarrow> 'c) \<Rightarrow> 'a list \<Rightarrow> 'b list \<Rightarrow> 'c list" where
  "broadcast f xs ys =
     (if length xs = length ys then map2 f xs ys
      else if length xs = 1 then map (f (hd xs)) ys
      else if length ys = 1 then map (\<lambda>x. f x (hd ys)) xs
      else map2 f xs ys)"

definition add1 :: "vec \<Rightarrow> vec \<Rightarrow> vec" where
  "add1 = broadcast (+)"

definition add2 :: "mat \<Rightarrow> mat \<Rightarrow> mat" where
  "add2 = broadcast add1"

definition add3 :: "tensor3 \<Rightarrow> tensor3 \<Rightarrow> tensor3" where
  "add3 = broadcast add2"

definition mul1 :: "vec \<Rightarrow> vec \<Rightarrow> vec" where
  "mul1 = broadcast (*)"

definition mul2 :: "mat \<Rightarrow> mat \<Rightarrow> mat" where
  "mul2 = broadcast mul1"

definition mul3 :: "tensor3 \<Rightarrow> tensor3 \<Rightarrow> tensor3" where
  "mul3 = broadcast mul2"

text \<open>\<open>tf.expand_dims(t, 1)\<close> and \<open>tf.expand_dims(t, -1)\<close> of a rank-2 tensor.\<close>

definition expand_dims_1 :: "mat \<Rightarrow> tensor3" where
  "expand_dims_1 t = map (\<lambda>v. [v]) t"

definition expand_dims_last :: "mat \<Rightarrow> tensor3" where
  "expand_dims_last t = map (map (\<lambda>x. [x])) t"

text \<open>
  \<open>tf.squeeze(t, axis=-1)\<close> removes a last axis of length 1: each row of one-element
  lists becomes the list of these elements.
\<close>

definition squeeze_last2 :: "mat \<Rightarrow> vec" where
  "squeeze_last2 m = concat m"

definition squeeze_last :: "tensor3 \<Rightarrow> mat" where
  "squeeze_last t = map squeeze_last2 t"

text \<open>
  \<open>tf.reduce_sum(t, axis=-1)\<close> and \<open>tf.reduce_sum(t, axis=1)\<close> of a rank-3 tensor.
  A matrix without rows does not hold the length of its rows: for an axis 1 of length 0
  \<open>reduce_sum_axis0\<close> returns the empty vector, where the runtime returns one zero for
  each entry of the last axis of the static shape. The statements about \<open>reduce_sum_axis1\<close>
  are for tensors with at least one position.
\<close>

definition reduce_sum_last :: "tensor3 \<Rightarrow> mat" where
  "reduce_sum_last t = map (map sum_list) t"

definition reduce_sum_axis0 :: "mat \<Rightarrow> vec" where
  "reduce_sum_axis0 m =
     (case m of [] \<Rightarrow> []
      | r # rs \<Rightarrow> map (\<lambda>j. \<Sum>row\<leftarrow>m. row ! j) [0..<length r])"

definition reduce_sum_axis1 :: "tensor3 \<Rightarrow> mat" where
  "reduce_sum_axis1 t = map reduce_sum_axis0 t"

text \<open>\<open>tf.cast\<close> of an integer mask to the type of the scores.\<close>

definition tf_cast :: "int list list \<Rightarrow> mat" where
  "tf_cast m = map (map real_of_int) m"

definition tanh3 :: "tensor3 \<Rightarrow> tensor3" where
  "tanh3 t = map (map (map tanh)) t"

text \<open>
  \<open>tf.nn.l2_normalize(t, -1)\<close>: each innermost vector is divided by the square root of
  the larger of its sum of squares and \<open>epsilon = 1e-12\<close>.
\<close>

definition l2_normalize1 :: "vec \<Rightarrow> vec" where
  "l2_normalize1 v = map (\<lambda>x. x / sqrt (max (\<Sum>y\<leftarrow>v. y * y) (1 / 10 ^ 12))) v"

definition l2_normalize :: "tensor3 \<Rightarrow> tensor3" where
  "l2_normalize t = map (map l2_normalize1) t"

text \<open>
  \<open>tf.nn.softmax(t, axis=1)\<close> of a rank-3 tensor: the entry at \<open>(b, i, j)\<close> is its
  exponential over the sum of the exponentials of the entries \<open>(b, r, j)\<close>, \<open>r\<close> along
  axis 1.
\<close>

definition softmax_axis0 :: "mat \<Rightarrow> mat" where
  "softmax_axis0 m =
     map (\<lambda>row. map (\<lambda>j. exp (row ! j) / (\<Sum>r\<leftarrow>m. exp (r ! j))) [0..<length row]) m"

definition softmax_axis1 :: "tensor3 \<Rightarrow> tensor3" where
  "softmax_axis1 t = map softmax_axis0 t"

definition softmax :: "vec \<Rightarrow> vec" where
  "softmax v = map (\<lambda>x. exp x / (\<Sum>y\<leftarrow>v. exp y)) v"

subsection \<open>Binary32 numbers\<close>

text \<open>
  A binary32 value: a finite number, an infinity or NaN. Zero carries no sign here.
\<close>

datatype f32 = Finite real | PosInf | NegInf | NaN

definition pow2 :: "int \<Rightarrow> real" where
  "pow2 k = 2 powr real_of_int k"

definition round_half_even :: "real \<Rightarrow> int" where
  "round_half_even z =
     (let f = \<lfloor>z\<rfloor>; d = z - of_int f
      in if d < 1 / 2 then f else if 1 / 2 < d then f + 1 else if even f then f else f + 1)"

text \<open>
  Rounding to the nearest binary32 number, ties to the even significand: 24 significant
  bits, exponents from \<open>-126\<close> (below it the numbers are subnormal, multiples of
  \<open>2^-149\<close>) to 127; a result of magnitude \<open>2^128\<close> or more is an infinity.
\<close>

definition round_f32 :: "real \<Rightarrow> f32" where
  "round_f32 x =
     (if x = 0 then Finite 0
      else let e = max \<lfloor>log 2 \<bar>x\<bar>\<rfloor> (- 126);
               q = pow2 (e - 23);
               y = sgn x * of_int (round_half_even (\<bar>x\<bar> / q)) * q
           in if pow2 128 \<le> \<bar>y\<bar> then (if 0 < x then PosInf else NegInf) else Finite y)"



fun f32_add :: "f32 \<Rightarrow> f32 \<Rightarrow> f32" where
  "f32_add (Finite x) (Finite y) = round_f32 (x + y)"
| "f32_add NaN b = NaN"
| "f32_add a NaN = NaN"
| "f32_add PosInf NegInf = NaN"
| "f32_add NegInf PosInf = NaN"
| "f32_add PosInf b = PosInf"
| "f32_add a PosInf = PosInf"
| "f32_add NegInf b = NegInf"
| "f32_add a NegInf = NegInf"

fun f32_div :: "f32 \<Rightarrow> f32 \<Rightarrow> f32" where
  "f32_div (Finite x) (Finite y) =
     (if y = 0 then (if x = 0 then NaN else if 0 < x then PosInf else NegInf)
      else round_f32 (x / y))"
| "f32_div NaN b = NaN"
| "f32_div a NaN = NaN"
| "f32_div (Finite x) b = Finite 0"
| "f32_div PosInf (Finite y) = (if y < 0 then NegInf else PosInf)"
| "f32_div NegInf (Finite y) = (if y < 0 then PosInf else NegInf)"
| "f32_div a b = NaN"


text \<open>
  A dense layer on one vector: output \<open>j\<close> is the product of the input with column \<open>j\<close>
  of the kernel (one row per input feature) plus entry \<open>j\<close> of the bias, followed by
  the activation; applied to a tensor, the layer maps the vectors of the last axis.
\<close>

definition activation_fn :: "string option \<Rightarrow> vec \<Rightarrow> vec" where
  "activation_fn act y =
     (case act of None \<Rightarrow> y | Some a \<Rightarrow> if a = ''softmax'' then softmax y else y)"

definition dense_call1 :: "dense \<Rightarrow> vec \<Rightarrow> vec" where
  "dense_call1 d x =
     activation_fn (activation d)
       (map (\<lambda>j. (\<Sum>i\<leftarrow>[0..<length x]. x ! i * kernel d ! i ! j) + bias d ! j)
            [0..<dense.units d])"

definition dense_call2 :: "dense \<Rightarrow> mat \<Rightarrow> mat" where
  "dense_call2 d t = map (dense_call1 d) t"

definition dense_call3 :: "dense \<Rightarrow> tensor3 \<Rightarrow> tensor3" where
  "dense_call3 d t = map (dense_call2 d) t"

text \<open>Shapes: the lengths of the two, or three, outer axes of a nested list.\<close>

definition shape2 :: "'a list list \<Rightarrow> nat \<Rightarrow> nat \<Rightarrow> bool" where
  "shape2 m B S \<longleftrightarrow> length m = B \<and> (\<forall>r\<in>set m. length r = S)"

definition shape3 :: "'a list list list \<Rightarrow> nat \<Rightarrow> nat \<Rightarrow> nat \<Rightarrow> bool" where
  "shape3 t B S D \<longleftrightarrow> length t = B \<and> (\<forall>m\<in>set t. shape2 m S D)"

subsection \<open>Encoder\<close>

record encoder =
  vocab_size :: nat
  embedding_dim :: nat
  enc_units :: nat
  batch_sz :: nat
  rnn_type :: string
  bidirectional :: bool
  embedding_weights :: "mat list option"
  embedding :: embedding_layer
  rnn :: rnn_layer

definition Encoder_init ::
  "nat \<Rightarrow> nat \<Rightarrow> nat \<Rightarrow> nat \<Rightarrow> string \<Rightarrow> bool \<Rightarrow> mat option \<Rightarrow> error + encoder" where
  "Encoder_init vocab_size' embedding_dim' enc_units' batch_sz' rnn_type' bidirectional'
       embedding_matrix =
     (let embedding_weights' = (case embedding_matrix of Some m \<Rightarrow> Some [m] | None \<Rightarrow> None);
          trainalbe = (case embedding_matrix of Some m \<Rightarrow> False | None \<Rightarrow> True);
          embedding' = Embedding vocab_size' embedding_dim' embedding_weights' trainalbe;
          self = (\<lambda>r. \<lparr>vocab_size = vocab_size', embedding_dim = embedding_dim',
                       enc_units = enc_units', batch_sz = batch_sz', rnn_type = rnn_type',
                       bidirectional = bidirectional',
                       embedding_weights = embedding_weights', embedding = embedding',
                       rnn = (if bidirectional' then Bidirectional r else r)\<rparr>)
      in if lower rnn_type' = ''gru'' then Inr (self (GRU enc_units'))
         else if lower rnn_type' = ''lstm'' then Inr (self (LSTM enc_units'))
         else Inl (Exception ''Only GRU and LSTM are supported now.''))"

text \<open>
  \<open>initialize_hidden_state\<close> returns one tensor for a unidirectional GRU and a list
  of tensors otherwise.
\<close>

datatype hidden = Tensor mat | Tensors "mat list"

definition initialize_hidden_state :: "encoder \<Rightarrow> nat option \<Rightarrow> error + hidden" where
  "initialize_hidden_state self batch_size =
     (let batch_size = (case batch_size of None \<Rightarrow> batch_sz self | Some b \<Rightarrow> b)
      in if lower (rnn_type self) = ''gru'' then
           (let initial_hidden = tf_zeros (batch_size, enc_units self)
            in if bidirectional self then Inr (Tensors [initial_hidden, initial_hidden])
               else Inr (Tensor initial_hidden))
         else if lower (rnn_type self) = ''lstm'' then
           (let dim = tf_zeros (batch_size, enc_units self)
            in if bidirectional self then Inr (Tensors [dim, dim, dim, dim])
               else Inr (Tensors [dim, dim]))
         else Inl (Exception ''Only GRU and LSTM are supported now.''))"

text \<open>The state tensors of a result of \<open>initialize_hidden_state\<close>, as a list.\<close>

fun state_tensors :: "hidden \<Rightarrow> mat list" where
  "state_tensors (Tensor t) = [t]"
| "state_tensors (Tensors ts) = ts"

subsection \<open>Decoder\<close>

record decoder =
  vocab_size :: nat
  embedding_dim :: nat
  dec_units :: nat
  batch_sz :: nat
  rnn_type :: string
  embedding_weights :: "mat list option"
  embedding :: embedding_layer
  rnn :: rnn_layer
  dense1 :: dense
  dense2 :: dense

definition Decoder_init ::
  "nat \<Rightarrow> nat \<Rightarrow> nat \<Rightarrow> nat \<Rightarrow> string \<Rightarrow> mat option \<Rightarrow> (mat \<times> vec) \<Rightarrow> (mat \<times> vec)
     \<Rightarrow> error + decoder" where
  "Decoder_init vocab_size' embedding_dim' dec_units' batch_sz' rnn_type' embedding_matrix
       dense1_weights dense2_weights =
     (let embedding_weights' = (case embedding_matrix of Some m \<Rightarrow> Some [m] | None \<Rightarrow> None);
          trainalbe = (case embedding_matrix of Some m \<Rightarrow> False | None \<Rightarrow> True);
          embedding' = Embedding vocab_size' embedding_dim' embedding_weights' trainalbe;
          self = (\<lambda>r. \<lparr>decoder.vocab_size = vocab_size', decoder.embedding_dim = embedding_dim',
                       dec_units = dec_units', decoder.batch_sz = batch_sz',
                       decoder.rnn_type = rnn_type',
                       decoder.embedding_weights = embedding_weights',
                       decoder.embedding = embedding', decoder.rnn = r,
                       dense1 = Dense (2 * dec_units') None dense1_weights,
                       dense2 = Dense vocab_size' (Some ''softmax'') dense2_weights\<rparr>)
      in if lower rnn_type' = ''gru'' then Inr (self (GRU dec_units'))
         else if lower rnn_type' = ''lstm'' then Inr (self (LSTM dec_units'))
         else Inl (Exception ''Only GRU and LSTM are supported now.''))"

subsection \<open>Attention\<close>

record attention =
  units :: nat
  score_type :: string
  mask_index :: "int option"
  va :: dense
  w1 :: dense
  w2 :: dense
  w3 :: dense

definition Attention_init ::
  "nat \<Rightarrow> string \<Rightarrow> int option \<Rightarrow> (mat \<times> vec) \<Rightarrow> (mat \<times> vec) \<Rightarrow> (mat \<times> vec) \<Rightarrow> (mat \<times> vec)
     \<Rightarrow> error + attention" where
  "Attention_init units' score_type' mask_index' va_weights w1_weights w2_weights w3_weights =
     Inr \<lparr>attention.units = units', score_type = score_type', mask_index = mask_index',
          va = Dense 1 None va_weights,
          w1 = Dense units' None w1_weights,
          w2 = Dense units' None w2_weights,
          w3 = Dense units' None w3_weights\<rparr>"

text \<open>
  Lines 173 to 187 of \<open>attention_score\<close>: the branch taken binds \<open>e\<close>, the raw scores
  of shape (batch, positions, 1). When \<open>score_type\<close> names none of the four score
  functions no branch is taken and \<open>e\<close> stays unbound: the result is \<open>None\<close>.
\<close>

definition attention_e ::
  "attention \<Rightarrow> tensor3 \<Rightarrow> tensor3 \<Rightarrow> tensor3 option \<Rightarrow> tensor3 option" where
  "attention_e self enc_output curr_dec_hidden prev_coverage =
     (if lower (score_type self) = ''additive-concat'' then
        (case prev_coverage of
           None \<Rightarrow>
             Some (dense_call3 (va self)
                     (tanh3 (add3 (dense_call3 (w1 self) enc_output)
                                  (dense_call3 (w2 self) curr_dec_hidden))))
         | Some c \<Rightarrow>
             Some (dense_call3 (va self)
                     (tanh3 (add3 (add3 (dense_call3 (w1 self) enc_output)
                                        (dense_call3 (w2 self) curr_dec_hidden))
                                  (dense_call3 (w3 self) c)))))
      else if lower (score_type self) = ''dot-product'' then
        Some (expand_dims_last (reduce_sum_last (mul3 enc_output curr_dec_hidden)))
      else if lower (score_type self) = ''general'' then
        (let temp_vector = dense_call3 (w1 self) curr_dec_hidden
         in Some (expand_dims_last (reduce_sum_last (mul3 enc_output temp_vector))))
      else if lower (score_type self) = ''cosine-similarity'' then
        (let enc_output_norm = l2_normalize enc_output;
             dec_hidden_norm = l2_normalize curr_dec_hidden;
             cos_similarity = reduce_sum_last (mul3 enc_output_norm dec_hidden_norm)
         in Some (expand_dims_last cos_similarity))
      else None)"

text \<open>The score types that take a branch of \<open>attention_score\<close>.\<close>

definition supported_score_type :: "string \<Rightarrow> bool" where
  "supported_score_type st \<longleftrightarrow>
     lower st \<in> set [''additive-concat'', ''dot-product'', ''general'', ''cosine-similarity'']"

text \<open>
  Lines 189 to 193: the mask is cast, multiplied with the squeezed scores, and the
  softmax runs along axis 1. Reading the unbound \<open>e\<close> raises \<open>UnboundLocalError\<close>.
\<close>

definition attention_score ::
  "attention \<Rightarrow> tensor3 \<Rightarrow> tensor3 \<Rightarrow> int list list \<Rightarrow> tensor3 option \<Rightarrow> error + tensor3" where
  "attention_score self enc_output curr_dec_hidden encoder_pad_mask prev_coverage =
     (case attention_e self enc_output curr_dec_hidden prev_coverage of
        None \<Rightarrow> Inl (UnboundLocalError ''e'')
      | Some e \<Rightarrow>
          (let mask = tf_cast encoder_pad_mask;
               masked_e = mul2 (squeeze_last e) mask;
               masked_e = expand_dims_last masked_e
           in Inr (softmax_axis1 masked_e)))"

text \<open>
  The second component of the result of \<open>call\<close> is \<open>tf.squeeze(attention_score, -1)\<close>:
  of rank 2 on the coverage path, and of rank 1 on the other path, where
  \<open>attention_score\<close> is the first of the two elements the result of
  \<open>self.attention_score\<close> is unpacked into.
\<close>

datatype squeezed = Rank2 mat | Rank1 vec

text \<open>
  Line 215: \<open>tf.reduce_sum(attention_score * enc_output, axis=1)\<close>. An operand of
  lower rank is given a leading axis of length 1 before it is broadcast.
\<close>

definition context_vector :: "tensor3 \<Rightarrow> tensor3 \<Rightarrow> mat" where
  "context_vector attention_score' enc_output =
     reduce_sum_axis1 (mul3 attention_score' enc_output)"

text \<open>
  \<open>call\<close>. Without coverage, line 211 unpacks the one tensor that \<open>attention_score\<close>
  returns into two names: iterating the tensor yields its elements along the batch axis,
  so the assignment succeeds for a batch of exactly two and raises \<open>ValueError\<close> for
  any other batch size. With a batch of two, \<open>attention_score\<close> is the rank-2
  distribution of the first batch element, which broadcasts against every batch element
  of \<open>enc_output\<close>.
\<close>

definition Attention_call ::
  "attention \<Rightarrow> mat \<Rightarrow> tensor3 \<Rightarrow> int list list \<Rightarrow> bool \<Rightarrow> tensor3 option
     \<Rightarrow> error + (mat \<times> squeezed \<times> tensor3 option)" where
  "Attention_call self dec_hidden enc_output encoder_pad_mask use_coverage prev_coverage =
     (let curr_dec_hidden = expand_dims_1 dec_hidden
      in if use_coverage then
           (case attention_score self enc_output curr_dec_hidden encoder_pad_mask prev_coverage of
              Inl err \<Rightarrow> Inl err
            | Inr attention_score' \<Rightarrow>
                (let converage = (case prev_coverage of
                                    None \<Rightarrow> attention_score'
                                  | Some c \<Rightarrow> add3 c attention_score');
                     context_vector' = context_vector attention_score' enc_output
                 in Inr (context_vector', Rank2 (squeeze_last attention_score'), Some converage)))
         else
           (case attention_score self enc_output curr_dec_hidden encoder_pad_mask None of
              Inl err \<Rightarrow> Inl err
            | Inr unpacked \<Rightarrow>
                (case unpacked of
                   [attention_score', e] \<Rightarrow>
                     (let converage = None;
                          context_vector' = context_vector [attention_score'] enc_output
                      in Inr (context_vector', Rank1 (squeeze_last2 attention_score'), converage))
                 | _ \<Rightarrow> Inl ValueError)))"

subsection \<open>Pointer\<close>






section \<open>Shapes and broadcasting\<close>

lemma shape2_nth: "shape2 m B S \<longleftrightarrow> length m = B \<and> (\<forall>b<B. length (m ! b) = S)"
  by (auto simp: shape2_def all_set_conv_all_nth)

lemma shape3_nth: "shape3 t B S D \<longleftrightarrow> length t = B \<and> (\<forall>b<B. shape2 (t ! b) S D)"
  by (auto simp: shape3_def all_set_conv_all_nth)

lemma shape3_shape2: "shape3 t B S D \<Longrightarrow> shape2 t B S"
  by (simp add: shape3_nth shape2_nth)

lemma broadcast_length_eq: "length xs = length ys \<Longrightarrow> length (broadcast f xs ys) = length xs"
  by (simp add: broadcast_def)

lemma broadcast_length_r1: "length ys = 1 \<Longrightarrow> length (broadcast f xs ys) = length xs"
  by (simp add: broadcast_def)

lemma broadcast_length_l1: "length xs = 1 \<Longrightarrow> length (broadcast f xs ys) = length ys"
  by (simp add: broadcast_def)

lemma broadcast_nth_eq:
  "length xs = length ys \<Longrightarrow> i < length xs \<Longrightarrow> broadcast f xs ys ! i = f (xs ! i) (ys ! i)"
  by (simp add: broadcast_def)

lemma broadcast_nth_r1:
  "length ys = 1 \<Longrightarrow> i < length xs \<Longrightarrow> broadcast f xs ys ! i = f (xs ! i) (ys ! 0)"
  by (cases ys) (auto simp: broadcast_def)

lemma broadcast_nth_l1:
  "length xs = 1 \<Longrightarrow> i < length ys \<Longrightarrow> broadcast f xs ys ! i = f (xs ! 0) (ys ! i)"
proof (cases "length ys = 1")
  case True
  assume "i < length ys" and "length xs = 1"
  with True have "i = 0" by simp
  with True \<open>length xs = 1\<close> show ?thesis by (simp add: broadcast_def)
next
  case False
  assume "i < length ys" and "length xs = 1"
  with False show ?thesis by (cases xs) (auto simp: broadcast_def)
qed

text \<open>Two nested broadcasts keep the two outer axes of the left operand when the right
  operand has the same batch axis and a second axis of the same length or of length 1.\<close>

lemma broadcast2_shape2:
  assumes "shape2 X B S" and "shape2 Y B S'" and "S' = S \<or> S' = 1"
  shows "shape2 (broadcast (broadcast f) X Y) B S"
proof -
  have len: "length X = B" "length Y = B" using assms by (simp_all add: shape2_nth)
  have "length (broadcast (broadcast f) X Y ! b) = S" if "b < B" for b
  proof -
    have x: "length (X ! b) = S" and y: "length (Y ! b) = S'"
      using assms that by (simp_all add: shape2_nth)
    have "broadcast (broadcast f) X Y ! b = broadcast f (X ! b) (Y ! b)"
      using len that by (simp add: broadcast_nth_eq)
    moreover have "length (broadcast f (X ! b) (Y ! b)) = S"
      using assms(3) x y by (auto simp: broadcast_length_eq broadcast_length_r1)
    ultimately show ?thesis by simp
  qed
  then show ?thesis using len by (simp add: shape2_nth broadcast_length_eq)
qed

lemma add3_shape2: "shape2 X B S \<Longrightarrow> shape2 Y B S' \<Longrightarrow> S' = S \<or> S' = 1 \<Longrightarrow> shape2 (add3 X Y) B S"
  unfolding add3_def add2_def by (rule broadcast2_shape2)

lemma mul3_shape2: "shape2 X B S \<Longrightarrow> shape2 Y B S' \<Longrightarrow> S' = S \<or> S' = 1 \<Longrightarrow> shape2 (mul3 X Y) B S"
  unfolding mul3_def mul2_def by (rule broadcast2_shape2)

lemma activation_fn_length: "length (activation_fn a y) = length y"
  by (simp add: activation_fn_def softmax_def split: option.splits)

lemma dense_call1_length: "length (dense_call1 d x) = dense.units d"
  by (simp add: dense_call1_def activation_fn_length)

lemma dense_call3_shape3: "shape2 t B S \<Longrightarrow> shape3 (dense_call3 d t) B S (dense.units d)"
  by (simp add: shape3_def shape2_def dense_call3_def dense_call2_def dense_call1_length)

lemma dense_call3_shape2: "shape2 t B S \<Longrightarrow> shape2 (dense_call3 d t) B S"
  by (simp add: shape2_def dense_call3_def dense_call2_def)

lemma tanh3_shape2: "shape2 t B S \<Longrightarrow> shape2 (tanh3 t) B S"
  by (simp add: shape2_def tanh3_def)

lemma l2_normalize_shape2: "shape2 t B S \<Longrightarrow> shape2 (l2_normalize t) B S"
  by (simp add: shape2_def l2_normalize_def)

lemma expand_dims_1_shape2: "length h = B \<Longrightarrow> shape2 (expand_dims_1 h) B 1"
  by (auto simp add: shape2_def expand_dims_1_def)

lemma expand_reduce_shape3: "shape2 t B S \<Longrightarrow> shape3 (expand_dims_last (reduce_sum_last t)) B S 1"
  by (auto simp add: shape3_def shape2_def expand_dims_last_def reduce_sum_last_def)

lemma attention_e_shape:
  assumes va: "dense.units (va self) = 1"
    and enc: "shape2 enc_output B S"
    and h: "shape2 curr_dec_hidden B 1"
    and prev: "case prev_coverage of None \<Rightarrow> True | Some c \<Rightarrow> shape2 c B S"
    and e: "attention_e self enc_output curr_dec_hidden prev_coverage = Some e"
  shows "shape3 e B S 1"
proof -
  note sh = add3_shape2 mul3_shape2 dense_call3_shape2 tanh3_shape2 l2_normalize_shape2 expand_reduce_shape3
  consider (add) "lower (score_type self) = ''additive-concat''"
    | (dot) "lower (score_type self) \<noteq> ''additive-concat''" "lower (score_type self) = ''dot-product''"
    | (gen) "lower (score_type self) \<noteq> ''additive-concat''" "lower (score_type self) \<noteq> ''dot-product''" "lower (score_type self) = ''general''"
    | (cos) "lower (score_type self) \<noteq> ''additive-concat''" "lower (score_type self) \<noteq> ''dot-product''" "lower (score_type self) \<noteq> ''general''" "lower (score_type self) = ''cosine-similarity''"
    | (none) "lower (score_type self) \<noteq> ''additive-concat''" "lower (score_type self) \<noteq> ''dot-product''" "lower (score_type self) \<noteq> ''general''" "lower (score_type self) \<noteq> ''cosine-similarity''"
    by blast
  then show ?thesis
  proof cases
    case add
    have s12: "shape2 (add3 (dense_call3 (w1 self) enc_output) (dense_call3 (w2 self) curr_dec_hidden)) B S"
      using enc h by (intro sh) (auto intro: sh)
    show ?thesis
    proof (cases prev_coverage)
      case None
      then have "e = dense_call3 (va self) (tanh3 (add3 (dense_call3 (w1 self) enc_output) (dense_call3 (w2 self) curr_dec_hidden)))"
        using e add by (simp add: attention_e_def)
      then show ?thesis using dense_call3_shape3[OF tanh3_shape2[OF s12], of "va self"] va by simp
    next
      case (Some c)
      then have c: "shape2 c B S" using prev by simp
      have s3: "shape2 (add3 (add3 (dense_call3 (w1 self) enc_output) (dense_call3 (w2 self) curr_dec_hidden)) (dense_call3 (w3 self) c)) B S"
        by (rule add3_shape2[OF s12 dense_call3_shape2[OF c]]) simp
      have "e = dense_call3 (va self) (tanh3 (add3 (add3 (dense_call3 (w1 self) enc_output) (dense_call3 (w2 self) curr_dec_hidden)) (dense_call3 (w3 self) c)))"
        using e add Some by (simp add: attention_e_def)
      then show ?thesis using dense_call3_shape3[OF tanh3_shape2[OF s3], of "va self"] va by simp
    qed
  next
    case dot
    then have "e = expand_dims_last (reduce_sum_last (mul3 enc_output curr_dec_hidden))"
      using e by (simp add: attention_e_def)
    moreover have "shape2 (mul3 enc_output curr_dec_hidden) B S"
      using enc h by (intro sh) (auto intro: sh)
    ultimately show ?thesis using expand_reduce_shape3 by blast
  next
    case gen
    then have "e = expand_dims_last (reduce_sum_last (mul3 enc_output (dense_call3 (w1 self) curr_dec_hidden)))"
      using e by (simp add: attention_e_def)
    moreover have "shape2 (mul3 enc_output (dense_call3 (w1 self) curr_dec_hidden)) B S"
      using enc h by (intro sh) (auto intro: sh)
    ultimately show ?thesis using expand_reduce_shape3 by blast
  next
    case cos
    then have "e = expand_dims_last (reduce_sum_last (mul3 (l2_normalize enc_output) (l2_normalize curr_dec_hidden)))"
      using e by (simp add: attention_e_def)
    moreover have "shape2 (mul3 (l2_normalize enc_output) (l2_normalize curr_dec_hidden)) B S"
      using enc h by (intro sh) (auto intro: sh)
    ultimately show ?thesis using expand_reduce_shape3 by blast
  next
    case none
    then show ?thesis using e by (simp add: attention_e_def)
  qed
qed

lemma attention_e_supported:
  "(\<exists>e. attention_e self enc_output curr_dec_hidden prev_coverage = Some e) \<longleftrightarrow> supported_score_type (score_type self)"
  by (auto simp: attention_e_def supported_score_type_def Let_def split: option.splits)

section \<open>Masking and softmax\<close>

lemma concat_singletons: "\<forall>r\<in>set m. length r = 1 \<Longrightarrow> concat m = map (\<lambda>r. r ! 0) m"
proof (induction m)
  case Nil
  then show ?case by simp
next
  case (Cons r m)
  then have "length r = 1" by simp
  then have "r = [r ! 0]" by (cases r) auto
  with Cons show ?case by (metis append_Cons append_Nil concat.simps(2) list.set_intros(2) list.simps(9))
qed

lemma sum_list_map_nth: "(\<Sum>x\<leftarrow>xs. f x) = (\<Sum>j<length xs. f (xs ! j))"
proof -
  have "(\<Sum>x\<leftarrow>xs. f x) = (\<Sum>j = 0..<length (map f xs). map f xs ! j)"
    by (rule sum_list_sum_nth)
  also have "\<dots> = (\<Sum>j<length xs. f (xs ! j))"
    by (simp add: atLeast0LessThan)
  finally show ?thesis .
qed

lemma squeeze_last_nth:
  assumes "shape3 e B S 1" and "b < B" and "i < S"
  shows "squeeze_last e ! b ! i = e ! b ! i ! 0"
proof -
  have sh: "shape2 (e ! b) S 1" and len: "length e = B" using assms by (simp_all add: shape3_nth)
  then have "\<forall>r\<in>set (e ! b). length r = 1" by (simp add: shape2_def)
  then have "concat (e ! b) = map (\<lambda>r. r ! 0) (e ! b)" by (rule concat_singletons)
  moreover have "length (e ! b) = S" using sh by (simp add: shape2_def)
  ultimately show ?thesis using assms len by (simp add: squeeze_last_def squeeze_last2_def)
qed

lemma squeeze_last_shape2:
  assumes "shape3 e B S 1"
  shows "shape2 (squeeze_last e) B S"
proof -
  have "length (squeeze_last e ! b) = S" if "b < B" for b
  proof -
    have sh: "shape2 (e ! b) S 1" and len: "length e = B" using assms that by (simp_all add: shape3_nth)
    then have "\<forall>r\<in>set (e ! b). length r = 1" by (simp add: shape2_def)
    then have "concat (e ! b) = map (\<lambda>r. r ! 0) (e ! b)" by (rule concat_singletons)
    moreover have "length (e ! b) = S" using sh by (simp add: shape2_def)
    ultimately show ?thesis using that len by (simp add: squeeze_last_def squeeze_last2_def)
  qed
  moreover have "length (squeeze_last e) = B" using assms by (simp add: shape3_nth squeeze_last_def)
  ultimately show ?thesis by (simp add: shape2_nth)
qed

lemma broadcast2_nth:
  assumes "shape2 X B S" and "shape2 Y B S" and "b < B" and "i < S"
  shows "broadcast (broadcast f) X Y ! b ! i = f (X ! b ! i) (Y ! b ! i)"
  using assms by (simp add: shape2_nth broadcast_nth_eq)

lemma mul2_nth:
  "shape2 X B S \<Longrightarrow> shape2 Y B S \<Longrightarrow> b < B \<Longrightarrow> i < S \<Longrightarrow> mul2 X Y ! b ! i = X ! b ! i * Y ! b ! i"
  unfolding mul2_def mul1_def by (rule broadcast2_nth)

lemma mul2_shape2: "shape2 X B S \<Longrightarrow> shape2 Y B S \<Longrightarrow> shape2 (mul2 X Y) B S"
  unfolding mul2_def mul1_def by (rule broadcast2_shape2[where S' = S]) simp_all

lemma tf_cast_shape2: "shape2 m B S \<Longrightarrow> shape2 (tf_cast m) B S"
  by (simp add: shape2_def tf_cast_def)

lemma tf_cast_nth: "shape2 m B S \<Longrightarrow> b < B \<Longrightarrow> i < S \<Longrightarrow> tf_cast m ! b ! i = real_of_int (m ! b ! i)"
  by (simp add: shape2_nth tf_cast_def)

lemma expand_dims_last_shape3: "shape2 M B S \<Longrightarrow> shape3 (expand_dims_last M) B S 1"
  by (auto simp add: shape3_def shape2_def expand_dims_last_def)

lemma softmax_axis1_shape3: "shape3 t B S D \<Longrightarrow> shape3 (softmax_axis1 t) B S D"
  by (auto simp add: shape3_def shape2_def softmax_axis1_def softmax_axis0_def)

lemma softmax_expand_nth:
  assumes "shape2 M B S" and "b < B" and "i < S"
  shows "softmax_axis1 (expand_dims_last M) ! b ! i = [exp (M ! b ! i) / (\<Sum>j<S. exp (M ! b ! j))]"
proof -
  have len: "length M = B" "length (M ! b) = S" using assms by (simp_all add: shape2_nth)
  have "(\<Sum>r\<leftarrow>map (\<lambda>x. [x]) (M ! b). exp (r ! 0)) = (\<Sum>x\<leftarrow>M ! b. exp x)"
    by (simp add: comp_def)
  also have "\<dots> = (\<Sum>j<S. exp (M ! b ! j))"
    using len by (simp add: sum_list_map_nth)
  finally show ?thesis
    using assms len by (simp add: softmax_axis1_def softmax_axis0_def expand_dims_last_def)
qed

lemma attention_score_nth:
  assumes e: "attention_e self enc_output curr_dec_hidden prev_coverage = Some e"
    and she: "shape3 e B S 1"
    and m: "shape2 encoder_pad_mask B S"
  shows "\<exists>A. attention_score self enc_output curr_dec_hidden encoder_pad_mask prev_coverage = Inr A
           \<and> shape3 A B S 1
           \<and> (\<forall>b<B. \<forall>i<S. A ! b ! i =
                [exp (e ! b ! i ! 0 * real_of_int (encoder_pad_mask ! b ! i))
                 / (\<Sum>j<S. exp (e ! b ! j ! 0 * real_of_int (encoder_pad_mask ! b ! j)))])"
proof -
  define M where "M = mul2 (squeeze_last e) (tf_cast encoder_pad_mask)"
  define A where "A = softmax_axis1 (expand_dims_last M)"
  have A: "attention_score self enc_output curr_dec_hidden encoder_pad_mask prev_coverage = Inr A"
    using e by (simp add: attention_score_def A_def M_def)
  have shM: "shape2 M B S"
    unfolding M_def by (intro mul2_shape2 squeeze_last_shape2 tf_cast_shape2 she m)
  have Mnth: "M ! b ! i = e ! b ! i ! 0 * real_of_int (encoder_pad_mask ! b ! i)"
    if "b < B" "i < S" for b i
    unfolding M_def
    using that mul2_nth[OF squeeze_last_shape2[OF she] tf_cast_shape2[OF m] that]
    by (simp add: squeeze_last_nth[OF she] tf_cast_nth[OF m])
  have shA: "shape3 A B S 1"
    unfolding A_def by (intro softmax_axis1_shape3 expand_dims_last_shape3 shM)
  have "A ! b ! i = [exp (e ! b ! i ! 0 * real_of_int (encoder_pad_mask ! b ! i))
                 / (\<Sum>j<S. exp (e ! b ! j ! 0 * real_of_int (encoder_pad_mask ! b ! j)))]"
    if "b < B" "i < S" for b i
    unfolding A_def using softmax_expand_nth[OF shM that] Mnth that by simp
  with A shA show ?thesis by blast
qed

section \<open>Rounding to binary32\<close>




























text \<open>The last two operations of the sigmoid, on the rounded exponential.\<close>

lemma sigmoid_tail_inf: "f32_div (Finite 1) (f32_add (Finite 1) PosInf) = Finite 0"
  by simp






section \<open>Properties of the layers\<close>

subsection \<open>Encoder and decoder\<close>

text \<open>
  Claim C8. An \<open>rnn_type\<close> whose lower-case form is neither \<open>gru\<close> nor \<open>lstm\<close> makes
  the constructors of both \<open>Encoder\<close> and \<open>Decoder\<close> raise the exception
  \<open>Only GRU and LSTM are supported now.\<close>: the failure happens in the constructor, and
  no layer of a supported kind is built instead.
\<close>

theorem Encoder_Decoder_init_unsupported_rnn_type:
  assumes "lower rnn_type' \<noteq> ''gru''" and "lower rnn_type' \<noteq> ''lstm''"
  shows "Encoder_init vs ed eu bs rnn_type' bd em
           = Inl (Exception ''Only GRU and LSTM are supported now.'')
       \<and> Decoder_init vs ed du bs rnn_type' em d1 d2
           = Inl (Exception ''Only GRU and LSTM are supported now.'')"
  using assms by (simp add: Encoder_init_def Decoder_init_def Let_def)

theorem Encoder_Decoder_init_unsupported_rnn_type_witness:
  "lower ''rnn'' \<noteq> ''gru'' \<and> lower ''rnn'' \<noteq> ''lstm''
   \<and> Encoder_init 20 8 10 5 ''rnn'' True None
        = Inl (Exception ''Only GRU and LSTM are supported now.'')
   \<and> Decoder_init 20 8 10 5 ''rnn'' None ([], []) ([], [])
        = Inl (Exception ''Only GRU and LSTM are supported now.'')"
proof -
  have a: "lower ''rnn'' \<noteq> ''gru''" and b: "lower ''rnn'' \<noteq> ''lstm''"
    by (simp_all add: lower_def lower_char_def)
  show ?thesis
    using a b Encoder_Decoder_init_unsupported_rnn_type[OF a b, of 20 8 10 5 True None 10 "([], [])" "([], [])"]
    by simp
qed

text \<open>The two supported kinds of cell construct the matching layer.\<close>

lemma Encoder_init_supported:
  assumes "lower rnn_type' = ''gru'' \<or> lower rnn_type' = ''lstm''"
  shows "\<exists>self. Encoder_init vs ed eu bs rnn_type' bd em = Inr self
           \<and> encoder.rnn self
               = (let r = (if lower rnn_type' = ''gru'' then GRU eu else LSTM eu)
                  in if bd then Bidirectional r else r)"
  using assms by (auto simp: Encoder_init_def Let_def)

lemma Decoder_init_supported:
  assumes "lower rnn_type' = ''gru'' \<or> lower rnn_type' = ''lstm''"
  shows "\<exists>self. Decoder_init vs ed du bs rnn_type' em d1 d2 = Inr self
           \<and> decoder.rnn self = (if lower rnn_type' = ''gru'' then GRU du else LSTM du)"
  using assms by (auto simp: Decoder_init_def Let_def)

lemma tf_zeros_shape2: "shape2 (tf_zeros (b, u)) b u"
  by (simp add: tf_zeros_def shape2_def)

lemma tf_zeros_zero: "x \<in> set (concat (tf_zeros (b, u))) \<Longrightarrow> x = 0"
  by (auto simp add: tf_zeros_def)

text \<open>
  Claim C9. For a supported \<open>rnn_type\<close>, \<open>initialize_hidden_state\<close> returns state
  tensors that all have shape (batch size, \<open>enc_units\<close>) and hold only zeros, the batch
  size being the argument when given and \<open>batch_sz\<close> otherwise; a bidirectional LSTM
  encoder gets a list of exactly four such tensors, a unidirectional GRU encoder exactly
  one tensor.
\<close>

theorem initialize_hidden_state_zeros:
  assumes "lower (encoder.rnn_type self) = ''gru'' \<or> lower (encoder.rnn_type self) = ''lstm''"
  shows "\<exists>hs. initialize_hidden_state self batch_size = Inr hs
           \<and> (\<forall>t\<in>set (state_tensors hs).
                 shape2 t (case batch_size of None \<Rightarrow> encoder.batch_sz self | Some n \<Rightarrow> n) (enc_units self)
                 \<and> (\<forall>x\<in>set (concat t). x = 0))
           \<and> (lower (encoder.rnn_type self) = ''lstm'' \<and> bidirectional self
                \<longrightarrow> (\<exists>z. hs = Tensors [z, z, z, z]))
           \<and> (lower (encoder.rnn_type self) = ''gru'' \<and> \<not> bidirectional self
                \<longrightarrow> (\<exists>z. hs = Tensor z))"
proof -
  define b where "b = (case batch_size of None \<Rightarrow> encoder.batch_sz self | Some n \<Rightarrow> n)"
  define z where "z = tf_zeros (b, enc_units self)"
  have z: "shape2 z b (enc_units self)" "\<forall>x\<in>set (concat z). x = 0"
    unfolding z_def using tf_zeros_shape2 tf_zeros_zero by blast+
  have neq: "''gru'' \<noteq> ''lstm''" by simp
  consider (g1) "lower (encoder.rnn_type self) = ''gru''" "bidirectional self"
    | (g2) "lower (encoder.rnn_type self) = ''gru''" "\<not> bidirectional self"
    | (l1) "lower (encoder.rnn_type self) = ''lstm''" "bidirectional self"
    | (l2) "lower (encoder.rnn_type self) = ''lstm''" "\<not> bidirectional self"
    using assms by blast
  then show ?thesis
  proof cases
    case g1
    then have "initialize_hidden_state self batch_size = Inr (Tensors [z, z])"
      by (simp add: initialize_hidden_state_def z_def b_def Let_def)
    then show ?thesis using z g1 by (simp add: b_def)
  next
    case g2
    then have "initialize_hidden_state self batch_size = Inr (Tensor z)"
      by (simp add: initialize_hidden_state_def z_def b_def Let_def)
    then show ?thesis using z g2 by (simp add: b_def)
  next
    case l1
    then have "initialize_hidden_state self batch_size = Inr (Tensors [z, z, z, z])"
      by (simp add: initialize_hidden_state_def z_def b_def Let_def)
    then show ?thesis using z l1 by (simp add: b_def)
  next
    case l2
    then have "initialize_hidden_state self batch_size = Inr (Tensors [z, z])"
      by (simp add: initialize_hidden_state_def z_def b_def Let_def)
    then show ?thesis using z l2 by (simp add: b_def)
  qed
qed

theorem initialize_hidden_state_zeros_witness:
  "\<exists>self hs. Encoder_init 20 8 10 5 ''lstm'' True None = Inr self
     \<and> (lower (encoder.rnn_type self) = ''gru'' \<or> lower (encoder.rnn_type self) = ''lstm'')
     \<and> initialize_hidden_state self None = Inr hs
     \<and> (\<exists>z. hs = Tensors [z, z, z, z])
     \<and> (\<forall>t\<in>set (state_tensors hs). shape2 t 5 10 \<and> (\<forall>x\<in>set (concat t). x = 0))"
proof -
  have l: "lower ''lstm'' = ''lstm''" by (simp add: lower_def lower_char_def)
  obtain self where init: "Encoder_init 20 8 10 5 ''lstm'' True None = Inr self"
    and rt: "encoder.rnn_type self = ''lstm''" and bd: "bidirectional self"
    and bs: "encoder.batch_sz self = 5" and eu: "enc_units self = 10"
    by (simp add: Encoder_init_def l)
  have hyp: "lower (encoder.rnn_type self) = ''gru'' \<or> lower (encoder.rnn_type self) = ''lstm''"
    using rt l by simp
  from initialize_hidden_state_zeros[OF hyp, of None] init hyp rt l bd bs eu
  show ?thesis by auto
qed

subsection \<open>Attention scores\<close>

lemma Attention_init_fields:
  assumes "Attention_init units' score_type' mask_index' va_w w1_w w2_w w3_w = Inr self"
  shows "dense.units (va self) = 1" and "score_type self = score_type'"
    and "activation (va self) = None"
  using assms by (auto simp: Attention_init_def Dense_def)

text \<open>
  Claim C3. For a layer of any of the four score types and operands of fitting shapes,
  \<open>attention_score\<close> returns the softmax along the position axis of the raw scores
  \<open>e\<close> multiplied by the mask: the weight at batch element \<open>b\<close> and position \<open>i\<close> is
  \<open>exp (e b i * mask b i)\<close> over the sum of \<open>exp (e b j * mask b j)\<close> for all positions
  \<open>j\<close>. The mask is applied to the scores, the softmax to the masked scores.
\<close>

theorem attention_score_softmax_of_masked_scores:
  assumes init: "Attention_init units' score_type' mask_index' va_w w1_w w2_w w3_w = Inr self"
    and sup: "supported_score_type score_type'"
    and enc: "shape2 enc_output B S"
    and h: "shape2 curr_dec_hidden B 1"
    and mask: "shape2 encoder_pad_mask B S"
    and prev: "case prev_coverage of None \<Rightarrow> True | Some c \<Rightarrow> shape2 c B S"
  shows "\<exists>e A. attention_e self enc_output curr_dec_hidden prev_coverage = Some e
           \<and> shape3 e B S 1
           \<and> attention_score self enc_output curr_dec_hidden encoder_pad_mask prev_coverage = Inr A
           \<and> shape3 A B S 1
           \<and> (\<forall>b<B. \<forall>i<S. A ! b ! i =
                [exp (e ! b ! i ! 0 * real_of_int (encoder_pad_mask ! b ! i))
                 / (\<Sum>j<S. exp (e ! b ! j ! 0 * real_of_int (encoder_pad_mask ! b ! j)))])"
proof -
  note f = Attention_init_fields[OF init]
  obtain e where e: "attention_e self enc_output curr_dec_hidden prev_coverage = Some e"
    using sup f(2) attention_e_supported by metis
  have she: "shape3 e B S 1"
    by (rule attention_e_shape[OF f(1) enc h prev e])
  from attention_score_nth[OF e she mask] e she show ?thesis by blast
qed

theorem attention_score_softmax_of_masked_scores_witness:
  "\<exists>self e A. Attention_init 1 ''dot-product'' None ([], []) ([], []) ([], []) ([], []) = Inr self
     \<and> supported_score_type ''dot-product''
     \<and> shape2 [[[0], [0 :: real]]] 1 2 \<and> shape2 [[[0 :: real]]] 1 1 \<and> shape2 [[1, 0 :: int]] 1 2
     \<and> attention_e self [[[0], [0]]] [[[0]]] None = Some e
     \<and> attention_score self [[[0], [0]]] [[[0]]] [[1, 0]] None = Inr A
     \<and> A ! 0 ! 1 = [exp (e ! 0 ! 1 ! 0 * real_of_int ([[1, 0]] ! 0 ! 1))
                    / (\<Sum>j<2. exp (e ! 0 ! j ! 0 * real_of_int ([[1, 0]] ! 0 ! j)))]"
proof -
  obtain self where init: "Attention_init 1 ''dot-product'' None ([], []) ([], []) ([], []) ([], []) = Inr self"
    by (simp add: Attention_init_def)
  have sup: "supported_score_type ''dot-product''"
    by (simp add: supported_score_type_def lower_def lower_char_def)
  have enc: "shape2 [[[0], [0 :: real]]] 1 2" and h: "shape2 [[[0 :: real]]] 1 1"
    and mask: "shape2 [[1, 0 :: int]] 1 2"
    by (simp_all add: shape2_def)
  have prev: "case None :: tensor3 option of None \<Rightarrow> True | Some c \<Rightarrow> shape2 c 1 2"
    by simp
  from attention_score_softmax_of_masked_scores[OF init sup enc h mask prev]
  obtain e A where e: "attention_e self [[[0], [0]]] [[[0]]] None = Some e"
    and A: "attention_score self [[[0], [0]]] [[[0]]] [[1, 0]] None = Inr A"
    and nth: "\<forall>b<1. \<forall>i<2. A ! b ! i =
                [exp (e ! b ! i ! 0 * real_of_int ([[1, 0]] ! b ! i))
                 / (\<Sum>j<2. exp (e ! b ! j ! 0 * real_of_int ([[1, 0]] ! b ! j)))]"
    by blast
  have "A ! 0 ! 1 = [exp (e ! 0 ! 1 ! 0 * real_of_int ([[1, 0]] ! 0 ! 1))
                    / (\<Sum>j<2. exp (e ! 0 ! j ! 0 * real_of_int ([[1, 0]] ! 0 ! j)))]"
    by (rule nth[rule_format]) simp_all
  with init sup enc h mask e A show ?thesis by blast
qed

text \<open>
  What the softmax after the mask gives: the weights of all positions, padded or not, sum
  to 1, and a padded position, whose masked score is 0, keeps the positive weight
  \<open>1 / Z\<close>, with \<open>Z\<close> the sum of the exponentials of the masked scores.
\<close>

lemma attention_score_sums_to_one:
  assumes e: "attention_e self enc_output curr_dec_hidden prev_coverage = Some e"
    and she: "shape3 e B S 1"
    and m: "shape2 encoder_pad_mask B S"
    and A: "attention_score self enc_output curr_dec_hidden encoder_pad_mask prev_coverage = Inr A"
    and S: "0 < S" and b: "b < B"
  shows "(\<Sum>i<S. A ! b ! i ! 0) = 1"
proof -
  define Z where "Z = (\<Sum>j<S. exp (e ! b ! j ! 0 * real_of_int (encoder_pad_mask ! b ! j)))"
  have "0 < Z" unfolding Z_def using S by (intro sum_pos) auto
  from attention_score_nth[OF e she m] A
  have nth: "\<forall>i<S. A ! b ! i = [exp (e ! b ! i ! 0 * real_of_int (encoder_pad_mask ! b ! i)) / Z]"
    using b by (auto simp: Z_def)
  have "(\<Sum>i<S. A ! b ! i ! 0)
          = (\<Sum>i<S. exp (e ! b ! i ! 0 * real_of_int (encoder_pad_mask ! b ! i)) / Z)"
    using nth by (intro sum.cong) simp_all
  also have "\<dots> = (\<Sum>i<S. exp (e ! b ! i ! 0 * real_of_int (encoder_pad_mask ! b ! i))) / Z"
    by (rule sum_divide_distrib[symmetric])
  also have "\<dots> = Z / Z" by (simp only: Z_def)
  also have "\<dots> = 1" using \<open>0 < Z\<close> by simp
  finally show ?thesis .
qed

lemma attention_score_padding_weight:
  assumes e: "attention_e self enc_output curr_dec_hidden prev_coverage = Some e"
    and she: "shape3 e B S 1"
    and m: "shape2 encoder_pad_mask B S"
    and A: "attention_score self enc_output curr_dec_hidden encoder_pad_mask prev_coverage = Inr A"
    and b: "b < B" and i: "i < S"
    and pad: "encoder_pad_mask ! b ! i = 0"
  shows "A ! b ! i ! 0 = 1 / (\<Sum>j<S. exp (e ! b ! j ! 0 * real_of_int (encoder_pad_mask ! b ! j)))"
    and "0 < A ! b ! i ! 0"
proof -
  define Z where "Z = (\<Sum>j<S. exp (e ! b ! j ! 0 * real_of_int (encoder_pad_mask ! b ! j)))"
  have "0 < Z" unfolding Z_def using i by (intro sum_pos) auto
  from attention_score_nth[OF e she m] A
  have "A ! b ! i = [exp (e ! b ! i ! 0 * real_of_int (encoder_pad_mask ! b ! i)) / Z]"
    using b i by (auto simp: Z_def)
  then have w: "A ! b ! i ! 0 = 1 / Z" using pad by simp
  then show "A ! b ! i ! 0 = 1 / (\<Sum>j<S. exp (e ! b ! j ! 0 * real_of_int (encoder_pad_mask ! b ! j)))"
    by (simp add: Z_def)
  show "0 < A ! b ! i ! 0" using w \<open>0 < Z\<close> by simp
qed

text \<open>
  Claim C1, evaluated at a batch of one sequence of two positions, the second one
  padding (mask \<open>[1, 0]\<close>), with dot-product scores: the padded position receives the
  weight 1/2, and the weights of the positions that are not padding sum to 1/2.
\<close>

theorem attention_score_weight_on_padding:
  "\<exists>self. Attention_init 1 ''dot-product'' None va_w w1_w w2_w w3_w = Inr self
     \<and> attention_score self [[[0], [0]]] [[[0]]] [[1, 0]] None = Inr [[[1 / 2], [1 / 2]]]"
proof -
  obtain self where init: "Attention_init 1 ''dot-product'' None va_w w1_w w2_w w3_w = Inr self"
    and st: "score_type self = ''dot-product''"
    by (simp add: Attention_init_def)
  have e: "attention_e self [[[0], [0]]] [[[0]]] None = Some [[[0], [0]]]"
    by (simp add: st attention_e_def lower_def lower_char_def expand_dims_last_def mul3_def
        mul2_def mul1_def broadcast_def reduce_sum_last_def)
  have "attention_score self [[[0], [0]]] [[[0]]] [[1, 0]] None = Inr [[[1 / 2], [1 / 2]]]"
    by (simp add: attention_score_def e Let_def softmax_axis1_def softmax_axis0_def
        expand_dims_last_def mul2_def mul1_def broadcast_def squeeze_last_def squeeze_last2_def
        tf_cast_def)
  with init show ?thesis by blast
qed

text \<open>A score type outside the four: every call ends at the unbound name.\<close>

lemma Attention_call_unsupported_score_type:
  assumes "\<not> supported_score_type (score_type self)"
  shows "Attention_call self dec_hidden enc_output encoder_pad_mask use_coverage prev_coverage
           = Inl (UnboundLocalError ''e'')"
proof -
  have "attention_e self enc_output (expand_dims_1 dec_hidden) p = None" for p
    using assms attention_e_supported[of self enc_output "expand_dims_1 dec_hidden" p] by auto
  then have "attention_score self enc_output (expand_dims_1 dec_hidden) encoder_pad_mask p
               = Inl (UnboundLocalError ''e'')" for p
    by (simp add: attention_score_def)
  then show ?thesis by (simp add: Attention_call_def Let_def)
qed

text \<open>
  Claim C6, evaluated at \<open>score_type = 'bilinear'\<close>: the constructor of \<open>Attention\<close>
  returns a layer without any check, and every later \<open>call\<close> of that layer raises
  \<open>UnboundLocalError\<close> for the name \<open>e\<close>.
\<close>

theorem Attention_init_unsupported_score_type:
  "\<exists>self. Attention_init 1 ''bilinear'' None va_w w1_w w2_w w3_w = Inr self
     \<and> (\<forall>dec_hidden enc_output encoder_pad_mask use_coverage prev_coverage.
          Attention_call self dec_hidden enc_output encoder_pad_mask use_coverage prev_coverage
            = Inl (UnboundLocalError ''e''))"
  by (simp add: Attention_init_def Attention_call_def attention_score_def attention_e_def Let_def lower_def lower_char_def)

subsection \<open>Coverage\<close>

lemma singleton_nth0: "length r = 1 \<Longrightarrow> r = [r ! 0]"
  by (cases r) auto

lemma shape3_row: "shape3 t B S D \<Longrightarrow> b < B \<Longrightarrow> i < S \<Longrightarrow> length (t ! b ! i) = D"
  by (simp add: shape3_nth shape2_nth)

lemma add3_nth:
  assumes X: "shape3 X B S 1" and Y: "shape3 Y B S 1" and b: "b < B" and i: "i < S"
  shows "add3 X Y ! b ! i = [X ! b ! i ! 0 + Y ! b ! i ! 0]"
proof -
  have x: "X ! b ! i = [X ! b ! i ! 0]" and y: "Y ! b ! i = [Y ! b ! i ! 0]"
    using shape3_row[OF X b i] shape3_row[OF Y b i] by (simp_all add: singleton_nth0)
  have "add3 X Y ! b ! i = add1 (X ! b ! i) (Y ! b ! i)"
    unfolding add3_def add2_def
    by (rule broadcast2_nth[OF shape3_shape2[OF X] shape3_shape2[OF Y] b i])
  also have "\<dots> = add1 [X ! b ! i ! 0] [Y ! b ! i ! 0]"
    using x y by simp
  also have "\<dots> = [X ! b ! i ! 0 + Y ! b ! i ! 0]"
    by (simp add: add1_def broadcast_def)
  finally show ?thesis .
qed

lemma add3_shape3:
  assumes X: "shape3 X B S 1" and Y: "shape3 Y B S 1"
  shows "shape3 (add3 X Y) B S 1"
proof -
  have s2: "shape2 (add3 X Y) B S"
    by (rule add3_shape2[OF shape3_shape2[OF X] shape3_shape2[OF Y]]) simp
  have "length (add3 X Y ! b ! i) = 1" if "b < B" "i < S" for b i
    using add3_nth[OF X Y that] by simp
  with s2 show ?thesis by (simp add: shape3_nth shape2_nth)
qed

lemma Attention_call_coverage_step:
  assumes va: "dense.units (va self) = 1"
    and sup: "supported_score_type (score_type self)"
    and enc: "shape2 enc_output B S"
    and h: "length dec_hidden = B"
    and mask: "shape2 encoder_pad_mask B S"
    and prev: "case prev_coverage of None \<Rightarrow> True | Some p \<Rightarrow> shape3 p B S 1"
  shows "\<exists>c a k. Attention_call self dec_hidden enc_output encoder_pad_mask True prev_coverage
                   = Inr (c, Rank2 a, Some k)
           \<and> shape3 k B S 1 \<and> shape2 a B S
           \<and> (\<forall>b<B. \<forall>i<S. k ! b ! i =
                 [(case prev_coverage of None \<Rightarrow> a ! b ! i | Some p \<Rightarrow> p ! b ! i ! 0 + a ! b ! i)])"
proof -
  obtain e where e: "attention_e self enc_output (expand_dims_1 dec_hidden) prev_coverage = Some e"
    using sup attention_e_supported by blast
  have prev2: "case prev_coverage of None \<Rightarrow> True | Some c \<Rightarrow> shape2 c B S"
    using prev by (auto split: option.splits intro: shape3_shape2)
  have she: "shape3 e B S 1"
    by (rule attention_e_shape[OF va enc expand_dims_1_shape2[OF h] prev2 e])
  from attention_score_nth[OF e she mask]
  obtain A where A: "attention_score self enc_output (expand_dims_1 dec_hidden) encoder_pad_mask
                       prev_coverage = Inr A"
    and shA: "shape3 A B S 1" by blast
  define k where "k = (case prev_coverage of None \<Rightarrow> A | Some p \<Rightarrow> add3 p A)"
  have call: "Attention_call self dec_hidden enc_output encoder_pad_mask True prev_coverage
               = Inr (context_vector A enc_output, Rank2 (squeeze_last A), Some k)"
    using A by (simp add: Attention_call_def Let_def k_def)
  have sq: "squeeze_last A ! b ! i = A ! b ! i ! 0" if "b < B" "i < S" for b i
    by (rule squeeze_last_nth[OF shA that])
  have shk: "shape3 k B S 1"
  proof (cases prev_coverage)
    case None
    then show ?thesis using shA by (simp add: k_def)
  next
    case (Some p)
    then have "shape3 p B S 1" using prev by simp
    from add3_shape3[OF this shA] Some show ?thesis by (simp add: k_def)
  qed
  have "k ! b ! i = [(case prev_coverage of None \<Rightarrow> squeeze_last A ! b ! i
                      | Some p \<Rightarrow> p ! b ! i ! 0 + squeeze_last A ! b ! i)]"
    if bi: "b < B" "i < S" for b i
  proof (cases prev_coverage)
    case None
    then show ?thesis
      using sq[OF bi] singleton_nth0[OF shape3_row[OF shA bi]] by (simp add: k_def)
  next
    case (Some p)
    then have "shape3 p B S 1" using prev by simp
    from add3_nth[OF this shA bi] Some show ?thesis
      using sq[OF bi] by (simp add: k_def)
  qed
  with call shk squeeze_last_shape2[OF shA] show ?thesis by blast
qed

text \<open>
  Claim C2. With coverage enabled, a layer of a supported score type and operands of
  fitting shapes, \<open>call\<close> returns a coverage whose entry at each batch element and
  position is the entry of the previous coverage plus the weight of the returned
  attention distribution there, and the weight itself when there is no previous
  coverage. Three calls in a row, each given the coverage the call before returned,
  starting without coverage, return coverages \<open>a1\<close>, \<open>a1 + a2\<close> and \<open>a1 + a2 + a3\<close>.
\<close>

theorem Attention_call_coverage_accumulates:
  assumes init: "Attention_init units' score_type' mask_index' va_w w1_w w2_w w3_w = Inr self"
    and sup: "supported_score_type score_type'"
    and enc: "shape2 enc_output B S"
    and mask: "shape2 encoder_pad_mask B S"
    and h1: "length h1 = B" and h2: "length h2 = B" and h3: "length h3 = B"
    and prev: "case prev_coverage of None \<Rightarrow> True | Some p \<Rightarrow> shape3 p B S 1"
  shows "\<exists>c1 a1 k1 c2 a2 k2 c3 a3 k3.
           Attention_call self h1 enc_output encoder_pad_mask True prev_coverage
             = Inr (c1, Rank2 a1, Some k1)
         \<and> Attention_call self h2 enc_output encoder_pad_mask True (Some k1)
             = Inr (c2, Rank2 a2, Some k2)
         \<and> Attention_call self h3 enc_output encoder_pad_mask True (Some k2)
             = Inr (c3, Rank2 a3, Some k3)
         \<and> (\<forall>b<B. \<forall>i<S.
               k1 ! b ! i = [(case prev_coverage of None \<Rightarrow> a1 ! b ! i
                              | Some p \<Rightarrow> p ! b ! i ! 0 + a1 ! b ! i)]
             \<and> k2 ! b ! i = [k1 ! b ! i ! 0 + a2 ! b ! i]
             \<and> k3 ! b ! i = [k2 ! b ! i ! 0 + a3 ! b ! i]
             \<and> (prev_coverage = None \<longrightarrow>
                   k1 ! b ! i = [a1 ! b ! i]
                 \<and> k2 ! b ! i = [a1 ! b ! i + a2 ! b ! i]
                 \<and> k3 ! b ! i = [a1 ! b ! i + a2 ! b ! i + a3 ! b ! i]))"
proof -
  note f = Attention_init_fields[OF init]
  have sup': "supported_score_type (score_type self)" using sup f(2) by simp
  note step = Attention_call_coverage_step[OF f(1) sup' enc _ mask]
  from step[OF h1 prev]
  obtain c1 a1 k1 where
    s1: "Attention_call self h1 enc_output encoder_pad_mask True prev_coverage
           = Inr (c1, Rank2 a1, Some k1)"
    and sh1: "shape3 k1 B S 1"
    and n1: "\<forall>b<B. \<forall>i<S. k1 ! b ! i = [(case prev_coverage of None \<Rightarrow> a1 ! b ! i
                              | Some p \<Rightarrow> p ! b ! i ! 0 + a1 ! b ! i)]"
    by blast
  have p1: "case Some k1 of None \<Rightarrow> True | Some p \<Rightarrow> shape3 p B S 1" using sh1 by simp
  from step[OF h2 p1]
  obtain c2 a2 k2 where
    s2: "Attention_call self h2 enc_output encoder_pad_mask True (Some k1)
           = Inr (c2, Rank2 a2, Some k2)"
    and sh2: "shape3 k2 B S 1"
    and n2: "\<forall>b<B. \<forall>i<S. k2 ! b ! i = [k1 ! b ! i ! 0 + a2 ! b ! i]"
    by auto
  have p2: "case Some k2 of None \<Rightarrow> True | Some p \<Rightarrow> shape3 p B S 1" using sh2 by simp
  from step[OF h3 p2]
  obtain c3 a3 k3 where
    s3: "Attention_call self h3 enc_output encoder_pad_mask True (Some k2)
           = Inr (c3, Rank2 a3, Some k3)"
    and n3: "\<forall>b<B. \<forall>i<S. k3 ! b ! i = [k2 ! b ! i ! 0 + a3 ! b ! i]"
    by auto
  have "k1 ! b ! i = [(case prev_coverage of None \<Rightarrow> a1 ! b ! i
                              | Some p \<Rightarrow> p ! b ! i ! 0 + a1 ! b ! i)]
      \<and> k2 ! b ! i = [k1 ! b ! i ! 0 + a2 ! b ! i]
      \<and> k3 ! b ! i = [k2 ! b ! i ! 0 + a3 ! b ! i]
      \<and> (prev_coverage = None \<longrightarrow>
                   k1 ! b ! i = [a1 ! b ! i]
                 \<and> k2 ! b ! i = [a1 ! b ! i + a2 ! b ! i]
                 \<and> k3 ! b ! i = [a1 ! b ! i + a2 ! b ! i + a3 ! b ! i])"
    if bi: "b < B" "i < S" for b i
  proof -
    have e1: "k1 ! b ! i = [(case prev_coverage of None \<Rightarrow> a1 ! b ! i
                              | Some p \<Rightarrow> p ! b ! i ! 0 + a1 ! b ! i)]"
      using n1 bi by blast
    have e2: "k2 ! b ! i = [k1 ! b ! i ! 0 + a2 ! b ! i]" using n2 bi by blast
    have e3: "k3 ! b ! i = [k2 ! b ! i ! 0 + a3 ! b ! i]" using n3 bi by blast
    show ?thesis using e1 e2 e3 by simp
  qed
  with s1 s2 s3 show ?thesis by blast
qed

theorem Attention_call_coverage_accumulates_witness:
  "\<exists>self c1 a1 k1 c2 a2 k2 c3 a3 k3.
     Attention_init 1 ''dot-product'' None ([], []) ([], []) ([], []) ([], []) = Inr self
   \<and> supported_score_type ''dot-product''
   \<and> shape2 [[[0], [0 :: real]]] 1 2 \<and> shape2 [[1, 0 :: int]] 1 2
   \<and> Attention_call self [[0]] [[[0], [0]]] [[1, 0]] True None = Inr (c1, Rank2 a1, Some k1)
   \<and> Attention_call self [[0]] [[[0], [0]]] [[1, 0]] True (Some k1) = Inr (c2, Rank2 a2, Some k2)
   \<and> Attention_call self [[0]] [[[0], [0]]] [[1, 0]] True (Some k2) = Inr (c3, Rank2 a3, Some k3)
   \<and> k1 ! 0 ! 1 = [a1 ! 0 ! 1]
   \<and> k2 ! 0 ! 1 = [a1 ! 0 ! 1 + a2 ! 0 ! 1]
   \<and> k3 ! 0 ! 1 = [a1 ! 0 ! 1 + a2 ! 0 ! 1 + a3 ! 0 ! 1]"
proof -
  obtain self where init: "Attention_init 1 ''dot-product'' None ([], []) ([], []) ([], []) ([], []) = Inr self"
    by (simp add: Attention_init_def)
  have sup: "supported_score_type ''dot-product''"
    by (simp add: supported_score_type_def lower_def lower_char_def)
  have enc: "shape2 [[[0], [0 :: real]]] 1 2" and mask: "shape2 [[1, 0 :: int]] 1 2"
    by (simp_all add: shape2_def)
  have h: "length [[0 :: real]] = 1" by simp
  have prev: "case None :: tensor3 option of None \<Rightarrow> True | Some p \<Rightarrow> shape3 p 1 2 1"
    by simp
  from Attention_call_coverage_accumulates[OF init sup enc mask h h h prev]
  obtain c1 a1 k1 c2 a2 k2 c3 a3 k3 where
    s: "Attention_call self [[0]] [[[0], [0]]] [[1, 0]] True None = Inr (c1, Rank2 a1, Some k1)"
       "Attention_call self [[0]] [[[0], [0]]] [[1, 0]] True (Some k1) = Inr (c2, Rank2 a2, Some k2)"
       "Attention_call self [[0]] [[[0], [0]]] [[1, 0]] True (Some k2) = Inr (c3, Rank2 a3, Some k3)"
    and n: "\<forall>b<1. \<forall>i<2. k1 ! b ! i = [a1 ! b ! i]
             \<and> k2 ! b ! i = [a1 ! b ! i + a2 ! b ! i]
             \<and> k3 ! b ! i = [a1 ! b ! i + a2 ! b ! i + a3 ! b ! i]"
    by auto
  have "k1 ! 0 ! 1 = [a1 ! 0 ! 1] \<and> k2 ! 0 ! 1 = [a1 ! 0 ! 1 + a2 ! 0 ! 1]
      \<and> k3 ! 0 ! 1 = [a1 ! 0 ! 1 + a2 ! 0 ! 1 + a3 ! 0 ! 1]"
    by (rule n[rule_format]) simp_all
  with init sup enc mask s show ?thesis by blast
qed

text \<open>Without coverage, every batch size other than 2 ends in the failed unpacking.\<close>

lemma Attention_call_no_coverage_batch:
  assumes "dense.units (va self) = 1"
    and "supported_score_type (score_type self)"
    and "shape2 enc_output B S"
    and "length dec_hidden = B"
    and "shape2 encoder_pad_mask B S"
    and "B \<noteq> 2"
  shows "Attention_call self dec_hidden enc_output encoder_pad_mask False prev_coverage = Inl ValueError"
proof -
  obtain e where e: "attention_e self enc_output (expand_dims_1 dec_hidden) None = Some e"
    using assms(2) attention_e_supported by blast
  have she: "shape3 e B S 1"
    using attention_e_shape[OF assms(1,3) expand_dims_1_shape2[OF assms(4)] _ e] by simp
  from attention_score_nth[OF e she assms(5)]
  obtain A where A: "attention_score self enc_output (expand_dims_1 dec_hidden) encoder_pad_mask None = Inr A"
    and "shape3 A B S 1" by blast
  then have "length A \<noteq> 2" using assms(6) by (simp add: shape3_def)
  then show ?thesis using A
    by (auto simp add: Attention_call_def Let_def split: list.splits)
qed

text \<open>
  Claim C7, evaluated at a batch of one sequence of two positions with
  \<open>use_coverage = False\<close>: \<open>call\<close> raises \<open>ValueError\<close> instead of returning.
\<close>

theorem Attention_call_without_coverage_raises:
  "\<exists>self. Attention_init 1 ''dot-product'' None va_w w1_w w2_w w3_w = Inr self
     \<and> Attention_call self [[0]] [[[0], [0]]] [[1, 0]] False None = Inl ValueError"
proof -
  obtain self where init: "Attention_init 1 ''dot-product'' None va_w w1_w w2_w w3_w = Inr self"
    and va: "dense.units (va self) = 1" and st: "score_type self = ''dot-product''"
    by (simp add: Attention_init_def Dense_def)
  have sup: "supported_score_type (score_type self)"
    by (simp add: st supported_score_type_def lower_def lower_char_def)
  have "Attention_call self [[0]] [[[0], [0]]] [[1, 0]] False None = Inl ValueError"
    by (rule Attention_call_no_coverage_batch[OF va sup, where B = 1 and S = 2])
       (simp_all add: shape2_def)
  with init show ?thesis by blast
qed

subsection \<open>Context vector\<close>

lemma mul1_singleton:
  assumes "length xs = 1"
  shows "length (mul1 xs ys) = length ys"
    and "d < length ys \<Longrightarrow> mul1 xs ys ! d = xs ! 0 * ys ! d"
  using assms by (simp_all add: mul1_def broadcast_length_l1 broadcast_nth_l1)

lemma reduce_sum_axis0_nth:
  assumes len: "shape2 m S D" and S: "0 < S"
  shows "length (reduce_sum_axis0 m) = D"
    and "d < D \<Longrightarrow> reduce_sum_axis0 m ! d = (\<Sum>i<S. m ! i ! d)"
proof -
  have l: "length m = S" and rows: "\<forall>r\<in>set m. length r = D"
    using len by (simp_all add: shape2_def)
  obtain r rs where m: "m = r # rs" using l S by (cases m) auto
  then have r: "length r = D" using rows by simp
  have eq: "reduce_sum_axis0 m = map (\<lambda>j. \<Sum>row\<leftarrow>m. row ! j) [0..<D]"
    using m r by (simp add: reduce_sum_axis0_def)
  show "length (reduce_sum_axis0 m) = D" using eq by simp
  show "reduce_sum_axis0 m ! d = (\<Sum>i<S. m ! i ! d)" if "d < D"
    using eq that l by (simp add: sum_list_map_nth)
qed

text \<open>One batch element of line 215: the weights \<open>a\<close> of shape (positions, 1) against the
  encoder outputs \<open>m\<close> of shape (positions, features).\<close>

lemma weighted_sum_nth:
  assumes a: "shape2 a S 1" and m: "shape2 m S D" and S: "0 < S"
  shows "length (reduce_sum_axis0 (mul2 a m)) = D"
    and "d < D \<Longrightarrow> reduce_sum_axis0 (mul2 a m) ! d = (\<Sum>i<S. a ! i ! 0 * m ! i ! d)"
proof -
  have la: "length a = S" "\<forall>i<S. length (a ! i) = 1" and lm: "length m = S" "\<forall>i<S. length (m ! i) = D"
    using a m by (simp_all add: shape2_nth)
  have row: "mul2 a m ! i = mul1 (a ! i) (m ! i)" if "i < S" for i
    using la lm that by (simp add: mul2_def broadcast_nth_eq)
  have len: "length (mul2 a m) = S"
    using la lm by (simp add: mul2_def broadcast_length_eq)
  have sh: "shape2 (mul2 a m) S D"
    using len row la lm by (simp add: shape2_nth mul1_singleton)
  show "length (reduce_sum_axis0 (mul2 a m)) = D"
    by (rule reduce_sum_axis0_nth(1)[OF sh S])
  show "reduce_sum_axis0 (mul2 a m) ! d = (\<Sum>i<S. a ! i ! 0 * m ! i ! d)" if d: "d < D"
  proof -
    have "reduce_sum_axis0 (mul2 a m) ! d = (\<Sum>i<S. mul2 a m ! i ! d)"
      by (rule reduce_sum_axis0_nth(2)[OF sh S d])
    also have "\<dots> = (\<Sum>i<S. a ! i ! 0 * m ! i ! d)"
      using row la lm d by (intro sum.cong) (simp_all add: mul1_singleton)
    finally show ?thesis .
  qed
qed

lemma context_vector_nth:
  assumes A: "shape3 A B S 1" and enc: "shape3 enc_output B S D" and S: "0 < S" and b: "b < B"
  shows "length (context_vector A enc_output ! b) = D"
    and "d < D \<Longrightarrow> context_vector A enc_output ! b ! d = (\<Sum>i<S. A ! b ! i ! 0 * enc_output ! b ! i ! d)"
proof -
  have l: "length A = B" "length enc_output = B"
    and a: "shape2 (A ! b) S 1" and m: "shape2 (enc_output ! b) S D"
    using A enc b by (simp_all add: shape3_nth)
  have eq: "context_vector A enc_output ! b = reduce_sum_axis0 (mul2 (A ! b) (enc_output ! b))"
    using l b by (simp add: context_vector_def reduce_sum_axis1_def mul3_def broadcast_nth_eq
        broadcast_length_eq)
  show "length (context_vector A enc_output ! b) = D"
    using eq weighted_sum_nth(1)[OF a m S] by simp
  show "context_vector A enc_output ! b ! d = (\<Sum>i<S. A ! b ! i ! 0 * enc_output ! b ! i ! d)"
    if "d < D"
    using eq weighted_sum_nth(2)[OF a m S that] by simp
qed

lemma context_vector_length:
  "shape3 A B S 1 \<Longrightarrow> shape3 enc_output B S D \<Longrightarrow> length (context_vector A enc_output) = B"
  by (simp add: context_vector_def reduce_sum_axis1_def mul3_def broadcast_length_eq shape3_def)

lemma context_vector_one_hot:
  assumes A: "shape3 A B S 1" and enc: "shape3 enc_output B S D" and b: "b < B" and k: "k < S"
    and one: "A ! b ! k = [1]" and zero: "\<forall>i<S. i \<noteq> k \<longrightarrow> A ! b ! i = [0]"
  shows "context_vector A enc_output ! b = enc_output ! b ! k"
proof (rule nth_equalityI)
  have S: "0 < S" using k by simp
  have lk: "length (enc_output ! b ! k) = D" by (rule shape3_row[OF enc b k])
  show "length (context_vector A enc_output ! b) = length (enc_output ! b ! k)"
    using context_vector_nth(1)[OF A enc S b] lk by simp
  fix d assume "d < length (context_vector A enc_output ! b)"
  then have d: "d < D" using context_vector_nth(1)[OF A enc S b] by simp
  have "context_vector A enc_output ! b ! d = (\<Sum>i<S. A ! b ! i ! 0 * enc_output ! b ! i ! d)"
    by (rule context_vector_nth(2)[OF A enc S b d])
  also have "\<dots> = (\<Sum>i<S. if i = k then enc_output ! b ! i ! d else 0)"
    using one zero by (intro sum.cong) auto
  also have "\<dots> = enc_output ! b ! k ! d"
    using k by simp
  finally show "context_vector A enc_output ! b ! d = enc_output ! b ! k ! d" .
qed

text \<open>
  On the coverage path every batch element's context vector is the sum over the
  positions of its own attention weight times the encoder output.
\<close>

lemma Attention_call_coverage_context_vector:
  assumes init: "Attention_init units' score_type' mask_index' va_w w1_w w2_w w3_w = Inr self"
    and sup: "supported_score_type score_type'"
    and enc: "shape3 enc_output B S D"
    and S: "0 < S"
    and h: "length dec_hidden = B"
    and mask: "shape2 encoder_pad_mask B S"
    and prev: "case prev_coverage of None \<Rightarrow> True | Some p \<Rightarrow> shape3 p B S 1"
  shows "\<exists>ctx a cov.
            Attention_call self dec_hidden enc_output encoder_pad_mask True prev_coverage
              = Inr (ctx, Rank2 a, cov)
          \<and> shape2 ctx B D
          \<and> (\<forall>b<B. \<forall>d<D. ctx ! b ! d = (\<Sum>i<S. a ! b ! i * enc_output ! b ! i ! d))"
proof -
  note f = Attention_init_fields[OF init]
  have sup': "supported_score_type (score_type self)" using sup f(2) by simp
  have enc2: "shape2 enc_output B S" by (rule shape3_shape2[OF enc])
  have prev2: "case prev_coverage of None \<Rightarrow> True | Some c \<Rightarrow> shape2 c B S"
    using prev by (auto split: option.splits intro: shape3_shape2)
  obtain e where e: "attention_e self enc_output (expand_dims_1 dec_hidden) prev_coverage = Some e"
    using sup' attention_e_supported by blast
  have "shape3 e B S 1"
    by (rule attention_e_shape[OF f(1) enc2 expand_dims_1_shape2[OF h] prev2 e])
  from attention_score_nth[OF e this mask] obtain A where
    A: "attention_score self enc_output (expand_dims_1 dec_hidden) encoder_pad_mask prev_coverage
          = Inr A" and shA: "shape3 A B S 1" by blast
  have call: "\<exists>cov. Attention_call self dec_hidden enc_output encoder_pad_mask True prev_coverage
             = Inr (context_vector A enc_output, Rank2 (squeeze_last A), cov)"
    using A by (simp add: Attention_call_def Let_def)
  have sh: "shape2 (context_vector A enc_output) B D"
    using context_vector_length[OF shA enc] context_vector_nth(1)[OF shA enc S]
    by (simp add: shape2_nth)
  have "context_vector A enc_output ! b ! d
          = (\<Sum>i<S. squeeze_last A ! b ! i * enc_output ! b ! i ! d)"
    if b: "b < B" and d: "d < D" for b d
  proof -
    have "context_vector A enc_output ! b ! d = (\<Sum>i<S. A ! b ! i ! 0 * enc_output ! b ! i ! d)"
      by (rule context_vector_nth(2)[OF shA enc S b d])
    also have "\<dots> = (\<Sum>i<S. squeeze_last A ! b ! i * enc_output ! b ! i ! d)"
      using squeeze_last_nth[OF shA b] by (intro sum.cong) simp_all
    finally show ?thesis .
  qed
  with call sh show ?thesis by blast
qed

text \<open>
  Claim C4, evaluated without coverage at a batch of two sequences of two positions,
  \<open>dec_hidden = [[1], [0]]\<close> and \<open>enc_output = [[[1], [2]], [[3], [4]]]\<close>, with dot-product
  scores and no padding. The attention distribution of the second batch element is
  \<open>[1/2, 1/2]\<close>, so the sum of its weights times its encoder outputs is \<open>7/2\<close>. The
  call returns the distribution of the first batch element alone and computes the
  context vector of the second batch element with it: \<open>(3 e + 4 e\<^sup>2) / (e + e\<^sup>2)\<close>, which
  is not \<open>7/2\<close>.
\<close>

theorem Attention_call_without_coverage_context_vector:
  "\<exists>self. Attention_init 1 ''dot-product'' None va_w w1_w w2_w w3_w = Inr self
     \<and> attention_score self [[[1], [2]], [[3], [4]]] (expand_dims_1 [[1], [0]]) [[1, 1], [1, 1]] None
         = Inr [[[exp 1 / (exp 1 + exp 2)], [exp 2 / (exp 1 + exp 2)]], [[1 / 2], [1 / 2]]]
     \<and> Attention_call self [[1], [0]] [[[1], [2]], [[3], [4]]] [[1, 1], [1, 1]] False None
         = Inr ([[(exp 1 * 1 + exp 2 * 2) / (exp 1 + exp 2)],
                 [(exp 1 * 3 + exp 2 * 4) / (exp 1 + exp 2)]],
                Rank1 [exp 1 / (exp 1 + exp 2), exp 2 / (exp 1 + exp 2)], None)
     \<and> (exp 1 * 3 + exp 2 * 4) / (exp 1 + exp 2) \<noteq> (1 / 2 * 3 + 1 / 2 * 4 :: real)"
proof -
  obtain self where init: "Attention_init 1 ''dot-product'' None va_w w1_w w2_w w3_w = Inr self"
    and st: "score_type self = ''dot-product''"
    by (simp add: Attention_init_def)
  have e: "attention_e self [[[1], [2]], [[3], [4]]] (expand_dims_1 [[1], [0]]) None
             = Some [[[1], [2]], [[0], [0]]]"
    by (simp add: st attention_e_def lower_def lower_char_def expand_dims_last_def expand_dims_1_def
        mul3_def mul2_def mul1_def broadcast_def reduce_sum_last_def)
  have A: "attention_score self [[[1], [2]], [[3], [4]]] (expand_dims_1 [[1], [0]]) [[1, 1], [1, 1]] None
         = Inr [[[exp 1 / (exp 1 + exp 2)], [exp 2 / (exp 1 + exp 2)]], [[1 / 2], [1 / 2]]]"
    by (simp add: attention_score_def e Let_def softmax_axis1_def softmax_axis0_def
        expand_dims_last_def mul2_def mul1_def broadcast_def squeeze_last_def squeeze_last2_def
        tf_cast_def)
  have c: "Attention_call self [[1], [0]] [[[1], [2]], [[3], [4]]] [[1, 1], [1, 1]] False None
         = Inr ([[(exp 1 * 1 + exp 2 * 2) / (exp 1 + exp 2)],
                 [(exp 1 * 3 + exp 2 * 4) / (exp 1 + exp 2)]],
                Rank1 [exp 1 / (exp 1 + exp 2), exp 2 / (exp 1 + exp 2)], None)"
    by (simp add: Attention_call_def A Let_def context_vector_def reduce_sum_axis1_def
        reduce_sum_axis0_def mul3_def mul2_def mul1_def broadcast_def squeeze_last2_def
        add_divide_distrib)
  have pos: "0 < exp (1::real) + exp 2" by (simp add: add_pos_pos)
  have ne: "(exp 1 * 3 + exp 2 * 4) / (exp 1 + exp 2) \<noteq> (1 / 2 * 3 + 1 / 2 * 4 :: real)"
  proof
    assume "(exp 1 * 3 + exp 2 * 4) / (exp 1 + exp 2) = (1 / 2 * 3 + 1 / 2 * 4 :: real)"
    then have "exp 1 * 3 + exp 2 * 4 = (7 / 2) * (exp 1 + exp (2::real))"
      using pos by (simp add: field_simps)
    then have "exp (2::real) = exp 1" by (simp add: algebra_simps)
    then show False by simp
  qed
  from init A c ne show ?thesis by (intro exI[of _ self] conjI)
qed

text \<open>
  Claim C10. Two attention layers that differ only in \<open>mask_index\<close> return the same
  result of \<open>call\<close> (context vector, attention distribution and coverage, or the same
  exception) on every input.
\<close>

theorem mask_index_unused:
  "Attention_call (self\<lparr>mask_index := m1\<rparr>) dec_hidden enc_output encoder_pad_mask use_coverage prev_coverage
   = Attention_call (self\<lparr>mask_index := m2\<rparr>) dec_hidden enc_output encoder_pad_mask use_coverage prev_coverage"
proof -
  have e: "attention_e (self\<lparr>mask_index := m\<rparr>) x y p = attention_e self x y p" for m x y p
    by (simp add: attention_e_def split: option.splits)
  have "attention_score (self\<lparr>mask_index := m\<rparr>) x y k p = attention_score self x y k p" for m x y k p
    by (simp add: attention_score_def e)
  then show ?thesis
    by (simp add: Attention_call_def Let_def)
qed

subsection \<open>Pointer\<close>









end
